theory Spec2Isabelle
  imports Main
begin

section \<open>Python values\<close>

text \<open>
  The module \<^verbatim>\<open>victoriabank_mia_api.py\<close> validates the arguments of a call, hands the
  request to a transport client and wraps transport faults. Its arguments are Python
  values: a payload is a \<^verbatim>\<open>dict\<close> or \<^verbatim>\<open>None\<close>, a token or an identifier is a
  \<^verbatim>\<open>str\<close> or \<^verbatim>\<open>None\<close>. A value annotated \<^verbatim>\<open>dict\<close>, \<^verbatim>\<open>str\<close> or \<^verbatim>\<open>list\<close> is modelled
  as an \<open>option\<close> of the container, \<open>None\<close> being Python's \<^verbatim>\<open>None\<close>.
\<close>

datatype pyval =
    PyNone
  | PyBool bool
  | PyInt int
  | PyStr string
  | PyList "pyval list"
  | PyDict "(string \<times> pyval) list"

text \<open>
  A \<^verbatim>\<open>dict\<close> with string keys, as the list of its items. The module only reads a
  payload, through its truth value and through \<^verbatim>\<open>dict.get\<close>.
\<close>

type_synonym py_dict = "(string \<times> pyval) list"

text \<open>\<^verbatim>\<open>d.get(k)\<close>: the value stored under \<open>k\<close>, or \<^verbatim>\<open>None\<close> when the key is absent.\<close>

definition dict_get :: "py_dict \<Rightarrow> string \<Rightarrow> pyval" where
  "dict_get d k = (case map_of d k of None \<Rightarrow> PyNone | Some v \<Rightarrow> v)"

text \<open>
  A raised object, an instance of \<^verbatim>\<open>BaseException\<close>: its class, the text
  \<^verbatim>\<open>str(ex)\<close> yields (for an exception built from one message, that message), its
  \<^verbatim>\<open>__cause__\<close>, and whether it is an instance of \<^verbatim>\<open>Exception\<close>, which is what a
  clause \<^verbatim>\<open>except Exception\<close> tests. \<^verbatim>\<open>KeyboardInterrupt\<close>, \<^verbatim>\<open>SystemExit\<close> and
  \<^verbatim>\<open>GeneratorExit\<close> derive from \<^verbatim>\<open>BaseException\<close> only.
\<close>

datatype py_exception =
  PyException (exc_class: string) (exc_str: string) (exc_cause: "py_exception option")
    (exc_is_Exception: bool)

text \<open>
  \<^verbatim>\<open>VictoriabankPaymentException(msg)\<close>, the one exception class the module raises.
  The class is imported from the sibling module; it is taken to derive from
  \<^verbatim>\<open>Exception\<close>.
\<close>

definition VictoriabankPaymentException :: "string \<Rightarrow> py_exception" where
  "VictoriabankPaymentException msg =
     PyException ''VictoriabankPaymentException'' msg None True"

text \<open>\<^verbatim>\<open>raise e from ex\<close> stores \<open>ex\<close> as the cause of \<open>e\<close>.\<close>

definition raise_from :: "py_exception \<Rightarrow> py_exception \<Rightarrow> py_exception" where
  "raise_from e ex = PyException (exc_class e) (exc_str e) (Some ex) (exc_is_Exception e)"

text \<open>
  The truth value of a \<^verbatim>\<open>str\<close>, \<^verbatim>\<open>list\<close> or \<^verbatim>\<open>dict\<close> that may be \<^verbatim>\<open>None\<close>:
  \<^verbatim>\<open>None\<close> and the empty container are false.
\<close>

definition truthy :: "'a list option \<Rightarrow> bool" where
  "truthy x = (case x of None \<Rightarrow> False | Some xs \<Rightarrow> xs \<noteq> [])"

text \<open>\<^verbatim>\<open>len(x)\<close>, which raises \<^verbatim>\<open>TypeError\<close> on \<^verbatim>\<open>None\<close>.\<close>

definition py_len :: "'a list option \<Rightarrow> py_exception + nat" where
  "py_len x =
     (case x of
        None \<Rightarrow> Inl (PyException ''TypeError''
                  (''object of type '' @ [CHR 0x27] @ ''NoneType'' @ [CHR 0x27] @ '' has no len()'')
                  None True)
      | Some xs \<Rightarrow> Inr (length xs))"

section \<open>The transport client\<close>

text \<open>
  The keyword arguments of one call of the client's \<^verbatim>\<open>send_request\<close>.
\<close>

record request =
  req_method :: string
  req_url :: string
  req_data :: "py_dict option"
  req_params :: "py_dict option"
  req_token :: "string option"
  req_entity_id :: "string option"

text \<open>
  The class \<^verbatim>\<open>VictoriabankMiaSdk\<close> is imported from a sibling module: its endpoint
  constants and its two methods are parameters of the model. The methods act on the
  outside world \<open>'w\<close>; either may raise. \<open>'resp\<close> is the raw response, \<open>'res\<close> what
  \<^verbatim>\<open>handle_response\<close> returns.
\<close>

record ('w, 'resp, 'res) VictoriabankMiaSdk =
  MIA_QR :: string
  MIA_QR_STATUS :: string
  MIA_QR_ID :: string
  MIA_QR_EXTENSIONS :: string
  MIA_QR_ACTIVE_EXTENSION :: string
  MIA_QR_EXTENSION_STATUS :: string
  MIA_TRANSACTIONS_LIST :: string
  SANDBOX_DEMOPAY_URL :: string
  MIA_PAYMENTS_ID :: string
  MIA_PAYMENTS_REFUND :: string
  MIA_PAYMENTS :: string
  send_request :: "request \<Rightarrow> 'w \<Rightarrow> (py_exception + 'resp) \<times> 'w"
  handle_response :: "'resp \<Rightarrow> string \<Rightarrow> 'w \<Rightarrow> (py_exception + 'res) \<times> 'w"

text \<open>
  The state a call runs in: the outside world, and the log of the requests handed to
  the client's \<^verbatim>\<open>send_request\<close> so far, oldest first.
\<close>

record 'w io =
  world :: 'w
  sent :: "request list"

section \<open>The class VictoriabankMiaApi\<close>

definition REQUIRED_QR_PARAMS :: "string list" where
  "REQUIRED_QR_PARAMS = [''header'', ''extension'']"

definition REQUIRED_TEST_PAY_PARAMS :: "string list" where
  "REQUIRED_TEST_PAY_PARAMS = [''qrHeaderUUID'']"

subsection \<open>Validators\<close>

text \<open>
  \<^verbatim>\<open>_validate_access_token\<close>. The condition \<^verbatim>\<open>not token or len(token) == 0\<close>
  evaluates \<^verbatim>\<open>len\<close> only when \<^verbatim>\<open>not token\<close> is false.
\<close>

definition validate_access_token :: "string option \<Rightarrow> py_exception + unit" where
  "validate_access_token token =
     (if \<not> truthy token
      then Inl (VictoriabankPaymentException
                  ''Access token is not valid. It should be a non-empty string.'')
      else case py_len token of
             Inl e \<Rightarrow> Inl e
           | Inr n \<Rightarrow>
               if n = 0
               then Inl (VictoriabankPaymentException
                           ''Access token is not valid. It should be a non-empty string.'')
               else Inr ())"

text \<open>\<^verbatim>\<open>_validate_id_param\<close>: two tests in sequence, each with its own message.\<close>

definition validate_id_param :: "string option \<Rightarrow> py_exception + unit" where
  "validate_id_param entity_id =
     (if \<not> truthy entity_id
      then Inl (VictoriabankPaymentException ''Missing ID.'')
      else case py_len entity_id of
             Inl e \<Rightarrow> Inl e
           | Inr n \<Rightarrow>
               if n = 0
               then Inl (VictoriabankPaymentException
                           ''Invalid ID parameter. Should be string of 36 characters.'')
               else Inr ())"

text \<open>
  The loop of \<^verbatim>\<open>_validate_params\<close> over the required names: it raises at the first
  name whose value in the payload is \<^verbatim>\<open>None\<close>.
\<close>

fun check_required :: "py_dict \<Rightarrow> string list \<Rightarrow> py_exception + unit" where
  "check_required d [] = Inr ()"
| "check_required d (param # rest) =
     (if dict_get d param = PyNone
      then Inl (VictoriabankPaymentException (''Missing required parameter: '' @ param))
      else check_required d rest)"

text \<open>
  \<^verbatim>\<open>_validate_params\<close>: the loop runs only under the guard
  \<^verbatim>\<open>if data and required_params\<close>, under which neither is \<^verbatim>\<open>None\<close>; the function
  returns \<^verbatim>\<open>True\<close>.
\<close>

definition validate_params :: "py_dict option \<Rightarrow> string list option \<Rightarrow> py_exception + bool" where
  "validate_params data required_params =
     (if truthy data \<and> truthy required_params
      then (case check_required (the data) (the required_params) of
              Inl e \<Rightarrow> Inl e
            | Inr _ \<Rightarrow> Inr True)
      else Inr True)"

subsection \<open>Dispatch\<close>

text \<open>
  \<^verbatim>\<open>_send_request\<close>: the client's \<^verbatim>\<open>send_request\<close> runs inside \<^verbatim>\<open>try\<close>. The
  clause \<^verbatim>\<open>except Exception as ex\<close> catches what it raises only when that is an
  instance of \<^verbatim>\<open>Exception\<close>, and replaces it by a \<^verbatim>\<open>VictoriabankPaymentException\<close>
  raised \<^verbatim>\<open>from\<close> it; anything else raised passes through to the caller.
  \<^verbatim>\<open>handle_response\<close> runs outside the \<^verbatim>\<open>try\<close>, so what it returns or raises is the
  outcome.
\<close>

definition api_send_request ::
  "('w, 'resp, 'res) VictoriabankMiaSdk \<Rightarrow> string \<Rightarrow> string \<Rightarrow> string option \<Rightarrow>
   py_dict option \<Rightarrow> py_dict option \<Rightarrow> string option \<Rightarrow> 'w io \<Rightarrow> (py_exception + 'res) \<times> 'w io" where
  "api_send_request client method endpoint token data params entity_id s =
     (let req = \<lparr>req_method = method, req_url = endpoint, req_data = data,
                 req_params = params, req_token = token, req_entity_id = entity_id\<rparr>;
          log = sent s @ [req]
      in case send_request client req (world s) of
           (Inl ex, w) \<Rightarrow>
             (if exc_is_Exception ex
              then Inl (raise_from
                          (VictoriabankPaymentException
                             (''HTTP error while sending '' @ method @ '' request to endpoint ''
                                @ endpoint @ '': '' @ exc_str ex))
                          ex)
              else Inl ex,
              \<lparr>world = w, sent = log\<rparr>)
         | (Inr response, w) \<Rightarrow>
             (case handle_response client response endpoint w of
                (result, w') \<Rightarrow> (result, \<lparr>world = w', sent = log\<rparr>)))"

text \<open>
  \<^verbatim>\<open>_execute_operation\<close> and \<^verbatim>\<open>_execute_entity_id_operation\<close>. The defaults of the
  source (\<^verbatim>\<open>method='POST'\<close>, respectively \<^verbatim>\<open>method='GET'\<close>, \<^verbatim>\<open>data=None\<close>,
  \<^verbatim>\<open>params=None\<close>) are written out by the callers below.
\<close>

definition execute_operation ::
  "('w, 'resp, 'res) VictoriabankMiaSdk \<Rightarrow> string \<Rightarrow> py_dict option \<Rightarrow> string option \<Rightarrow>
   string list option \<Rightarrow> string \<Rightarrow> py_dict option \<Rightarrow> 'w io \<Rightarrow> (py_exception + 'res) \<times> 'w io" where
  "execute_operation client endpoint data token required_params method params s =
     (case validate_params data required_params of
        Inl e \<Rightarrow> (Inl e, s)
      | Inr _ \<Rightarrow>
          (case validate_access_token token of
             Inl e \<Rightarrow> (Inl e, s)
           | Inr _ \<Rightarrow> api_send_request client method endpoint token data params None s))"

definition execute_entity_id_operation ::
  "('w, 'resp, 'res) VictoriabankMiaSdk \<Rightarrow> string \<Rightarrow> string option \<Rightarrow> string option \<Rightarrow>
   string \<Rightarrow> py_dict option \<Rightarrow> py_dict option \<Rightarrow> 'w io \<Rightarrow> (py_exception + 'res) \<times> 'w io" where
  "execute_entity_id_operation client endpoint entity_id token method data params s =
     (case validate_id_param entity_id of
        Inl e \<Rightarrow> (Inl e, s)
      | Inr _ \<Rightarrow>
          (case validate_access_token token of
             Inl e \<Rightarrow> (Inl e, s)
           | Inr _ \<Rightarrow> api_send_request client method endpoint token data params entity_id s))"

subsection \<open>Public operations\<close>

definition qr_create ::
  "('w, 'resp, 'res) VictoriabankMiaSdk \<Rightarrow> py_dict option \<Rightarrow> py_dict option \<Rightarrow> string option \<Rightarrow>
   'w io \<Rightarrow> (py_exception + 'res) \<times> 'w io" where
  "qr_create client data params token =
     execute_operation client (MIA_QR client) data token (Some REQUIRED_QR_PARAMS) ''POST'' params"

definition qr_status ::
  "('w, 'resp, 'res) VictoriabankMiaSdk \<Rightarrow> string option \<Rightarrow> py_dict option \<Rightarrow> string option \<Rightarrow>
   'w io \<Rightarrow> (py_exception + 'res) \<times> 'w io" where
  "qr_status client qr_id params token =
     execute_entity_id_operation client (MIA_QR_STATUS client) qr_id token ''GET'' None params"

definition qr_cancel ::
  "('w, 'resp, 'res) VictoriabankMiaSdk \<Rightarrow> string option \<Rightarrow> string option \<Rightarrow>
   'w io \<Rightarrow> (py_exception + 'res) \<times> 'w io" where
  "qr_cancel client qr_id token =
     execute_entity_id_operation client (MIA_QR_ID client) qr_id token ''DELETE'' None None"

definition qr_create_extension ::
  "('w, 'resp, 'res) VictoriabankMiaSdk \<Rightarrow> string option \<Rightarrow> py_dict option \<Rightarrow> string option \<Rightarrow>
   'w io \<Rightarrow> (py_exception + 'res) \<times> 'w io" where
  "qr_create_extension client qr_id data token =
     execute_entity_id_operation client (MIA_QR_EXTENSIONS client) qr_id token ''POST'' data None"

definition qr_cancel_extension ::
  "('w, 'resp, 'res) VictoriabankMiaSdk \<Rightarrow> string option \<Rightarrow> string option \<Rightarrow>
   'w io \<Rightarrow> (py_exception + 'res) \<times> 'w io" where
  "qr_cancel_extension client qr_id token =
     execute_entity_id_operation client (MIA_QR_ACTIVE_EXTENSION client) qr_id token
       ''DELETE'' None None"

definition qr_extension_status ::
  "('w, 'resp, 'res) VictoriabankMiaSdk \<Rightarrow> string option \<Rightarrow> py_dict option \<Rightarrow> string option \<Rightarrow>
   'w io \<Rightarrow> (py_exception + 'res) \<times> 'w io" where
  "qr_extension_status client qr_extension_id params token =
     execute_entity_id_operation client (MIA_QR_EXTENSION_STATUS client) qr_extension_id token
       ''GET'' None params"

definition transactions_list ::
  "('w, 'resp, 'res) VictoriabankMiaSdk \<Rightarrow> py_dict option \<Rightarrow> string option \<Rightarrow>
   'w io \<Rightarrow> (py_exception + 'res) \<times> 'w io" where
  "transactions_list client params token =
     execute_operation client (MIA_TRANSACTIONS_LIST client) None token None ''GET'' params"

definition test_pay ::
  "('w, 'resp, 'res) VictoriabankMiaSdk \<Rightarrow> py_dict option \<Rightarrow> string option \<Rightarrow>
   'w io \<Rightarrow> (py_exception + 'res) \<times> 'w io" where
  "test_pay client data token =
     execute_operation client (SANDBOX_DEMOPAY_URL client) data token
       (Some REQUIRED_TEST_PAY_PARAMS) ''POST'' None"

definition payment_details ::
  "('w, 'resp, 'res) VictoriabankMiaSdk \<Rightarrow> string option \<Rightarrow> string option \<Rightarrow>
   'w io \<Rightarrow> (py_exception + 'res) \<times> 'w io" where
  "payment_details client pay_id token =
     execute_entity_id_operation client (MIA_PAYMENTS_ID client) pay_id token ''GET'' None None"

definition payment_refund ::
  "('w, 'resp, 'res) VictoriabankMiaSdk \<Rightarrow> string option \<Rightarrow> py_dict option \<Rightarrow> string option \<Rightarrow>
   'w io \<Rightarrow> (py_exception + 'res) \<times> 'w io" where
  "payment_refund client pay_id data token =
     execute_entity_id_operation client (MIA_PAYMENTS_REFUND client) pay_id token ''POST'' data None"

definition payment_list ::
  "('w, 'resp, 'res) VictoriabankMiaSdk \<Rightarrow> py_dict option \<Rightarrow> string option \<Rightarrow>
   'w io \<Rightarrow> (py_exception + 'res) \<times> 'w io" where
  "payment_list client params token =
     execute_operation client (MIA_PAYMENTS client) None token None ''GET'' params"


section \<open>Calls of the public interface\<close>

text \<open>
  Every public method takes the access token as its last argument. A value of
  \<open>operation\<close> names a method together with its other arguments, so that a statement
  can range over all eleven methods; \<open>call\<close> runs the method named.
\<close>

datatype operation =
    Qr_create "py_dict option" "py_dict option"
  | Qr_status "string option" "py_dict option"
  | Qr_cancel "string option"
  | Qr_create_extension "string option" "py_dict option"
  | Qr_cancel_extension "string option"
  | Qr_extension_status "string option" "py_dict option"
  | Transactions_list "py_dict option"
  | Test_pay "py_dict option"
  | Payment_details "string option"
  | Payment_refund "string option" "py_dict option"
  | Payment_list "py_dict option"

fun call ::
  "('w, 'resp, 'res) VictoriabankMiaSdk \<Rightarrow> operation \<Rightarrow> string option \<Rightarrow>
   'w io \<Rightarrow> (py_exception + 'res) \<times> 'w io" where
  "call client (Qr_create data params) token = qr_create client data params token"
| "call client (Qr_status qr_id params) token = qr_status client qr_id params token"
| "call client (Qr_cancel qr_id) token = qr_cancel client qr_id token"
| "call client (Qr_create_extension qr_id data) token =
     qr_create_extension client qr_id data token"
| "call client (Qr_cancel_extension qr_id) token = qr_cancel_extension client qr_id token"
| "call client (Qr_extension_status qr_extension_id params) token =
     qr_extension_status client qr_extension_id params token"
| "call client (Transactions_list params) token = transactions_list client params token"
| "call client (Test_pay data) token = test_pay client data token"
| "call client (Payment_details pay_id) token = payment_details client pay_id token"
| "call client (Payment_refund pay_id data) token = payment_refund client pay_id data token"
| "call client (Payment_list params) token = payment_list client params token"

text \<open>
  The first validation step of each method, on its own: the payload check of a method
  that goes through \<^verbatim>\<open>_execute_operation\<close> (with the required names that method
  passes), the identifier check of one that goes through
  \<^verbatim>\<open>_execute_entity_id_operation\<close>.
\<close>

fun input_passes :: "operation \<Rightarrow> bool" where
  "input_passes (Qr_create data params) =
     (validate_params data (Some REQUIRED_QR_PARAMS) = Inr True)"
| "input_passes (Qr_status qr_id params) = (validate_id_param qr_id = Inr ())"
| "input_passes (Qr_cancel qr_id) = (validate_id_param qr_id = Inr ())"
| "input_passes (Qr_create_extension qr_id data) = (validate_id_param qr_id = Inr ())"
| "input_passes (Qr_cancel_extension qr_id) = (validate_id_param qr_id = Inr ())"
| "input_passes (Qr_extension_status qr_extension_id params) =
     (validate_id_param qr_extension_id = Inr ())"
| "input_passes (Transactions_list params) = (validate_params None None = Inr True)"
| "input_passes (Test_pay data) =
     (validate_params data (Some REQUIRED_TEST_PAY_PARAMS) = Inr True)"
| "input_passes (Payment_details pay_id) = (validate_id_param pay_id = Inr ())"
| "input_passes (Payment_refund pay_id data) = (validate_id_param pay_id = Inr ())"
| "input_passes (Payment_list params) = (validate_params None None = Inr True)"

text \<open>
  The HTTP verb of each operation as the table of public operations in the
  specification gives it (section 4.1, column "HTTP verb"). It is written from the
  table, not from the code, and is compared with the code below.
\<close>

fun spec_verb :: "operation \<Rightarrow> string" where
  "spec_verb (Qr_create data params) = ''POST''"
| "spec_verb (Qr_status qr_id params) = ''GET''"
| "spec_verb (Qr_cancel qr_id) = ''DELETE''"
| "spec_verb (Qr_create_extension qr_id data) = ''POST''"
| "spec_verb (Qr_cancel_extension qr_id) = ''DELETE''"
| "spec_verb (Qr_extension_status qr_extension_id params) = ''GET''"
| "spec_verb (Transactions_list params) = ''GET''"
| "spec_verb (Test_pay data) = ''POST''"
| "spec_verb (Payment_details pay_id) = ''GET''"
| "spec_verb (Payment_refund pay_id data) = ''POST''"
| "spec_verb (Payment_list params) = ''GET''"

section \<open>Concrete clients\<close>

text \<open>
  Clients on which the operations are evaluated. Their world is the number of
  requests that reached the network. \<open>online_client\<close> answers every request with a
  raw response naming the verb, and its \<^verbatim>\<open>handle_response\<close> appends the endpoint;
  \<open>offline_client\<close> raises a \<^verbatim>\<open>ConnectionError\<close> on every request;
  \<open>interrupted_client\<close> raises a \<^verbatim>\<open>KeyboardInterrupt\<close>, which is not an instance of
  \<^verbatim>\<open>Exception\<close>, on every request. The endpoint strings are sample values; the
  theorems below hold for any.
\<close>

definition online_client :: "(nat, string, string) VictoriabankMiaSdk" where
  "online_client =
     \<lparr>MIA_QR = ''/api/v1/qr'',
      MIA_QR_STATUS = ''/api/v1/qr/{qrHeaderUUID}/status'',
      MIA_QR_ID = ''/api/v1/qr/{qrHeaderUUID}'',
      MIA_QR_EXTENSIONS = ''/api/v1/qr/{qrHeaderUUID}/extentions'',
      MIA_QR_ACTIVE_EXTENSION = ''/api/v1/qr/{qrHeaderUUID}/active-extension'',
      MIA_QR_EXTENSION_STATUS = ''/api/v1/qr-extensions/{qrExtensionUUID}/status'',
      MIA_TRANSACTIONS_LIST = ''/api/v1/reconciliation/transactions'',
      SANDBOX_DEMOPAY_URL = ''/api/Pay'',
      MIA_PAYMENTS_ID = ''/api/v1/payments/{payId}'',
      MIA_PAYMENTS_REFUND = ''/api/v1/payments/{payId}/refund'',
      MIA_PAYMENTS = ''/api/v1/payments'',
      send_request = (\<lambda>req w. (Inr (req_method req), Suc w)),
      handle_response = (\<lambda>response endpoint w. (Inr (response @ '' '' @ endpoint), w))\<rparr>"

definition offline_client :: "(nat, string, string) VictoriabankMiaSdk" where
  "offline_client =
     online_client
       \<lparr>send_request :=
          (\<lambda>req w.
             (Inl (PyException ''ConnectionError'' ''connection refused'' None True), w))\<rparr>"

definition interrupted_client :: "(nat, string, string) VictoriabankMiaSdk" where
  "interrupted_client =
     online_client
       \<lparr>send_request :=
          (\<lambda>req w. (Inl (PyException ''KeyboardInterrupt'' [] None False), w))\<rparr>"

definition idle :: "nat io" where
  "idle = \<lparr>world = 0, sent = []\<rparr>"

section \<open>Facts about the validators and the dispatch\<close>

lemmas op_defs = qr_create_def qr_status_def qr_cancel_def qr_create_extension_def
  qr_cancel_extension_def qr_extension_status_def transactions_list_def test_pay_def
  payment_details_def payment_refund_def payment_list_def

lemma validate_access_token_empty:
  "token = None \<or> token = Some [] \<Longrightarrow>
   validate_access_token token =
     Inl (VictoriabankPaymentException
            ''Access token is not valid. It should be a non-empty string.'')"
  by (auto simp: validate_access_token_def truthy_def)

lemma validate_access_token_ok:
  "t \<noteq> [] \<Longrightarrow> validate_access_token (Some t) = Inr ()"
  by (simp add: validate_access_token_def truthy_def py_len_def)

lemma validate_id_param_empty:
  "entity_id = None \<or> entity_id = Some [] \<Longrightarrow>
   validate_id_param entity_id = Inl (VictoriabankPaymentException ''Missing ID.'')"
  by (auto simp: validate_id_param_def truthy_def)

lemma validate_id_param_ok:
  "i \<noteq> [] \<Longrightarrow> validate_id_param (Some i) = Inr ()"
  by (simp add: validate_id_param_def truthy_def py_len_def)

lemma validate_params_skip:
  "data = None \<or> data = Some [] \<Longrightarrow> validate_params data required_params = Inr True"
  by (auto simp: validate_params_def truthy_def)

lemma validate_params_nonempty:
  "d \<noteq> [] \<Longrightarrow> ps \<noteq> [] \<Longrightarrow>
   validate_params (Some d) (Some ps) =
     (case check_required d ps of Inl e \<Rightarrow> Inl e | Inr u \<Rightarrow> Inr True)"
  by (simp add: validate_params_def truthy_def)

lemma validate_params_qr_header:
  "d \<noteq> [] \<Longrightarrow> dict_get d ''header'' = PyNone \<Longrightarrow>
   validate_params (Some d) (Some REQUIRED_QR_PARAMS) =
     Inl (VictoriabankPaymentException ''Missing required parameter: header'')"
  by (simp add: validate_params_nonempty REQUIRED_QR_PARAMS_def)

lemma validate_params_qr_extension:
  "d \<noteq> [] \<Longrightarrow> dict_get d ''header'' \<noteq> PyNone \<Longrightarrow> dict_get d ''extension'' = PyNone \<Longrightarrow>
   validate_params (Some d) (Some REQUIRED_QR_PARAMS) =
     Inl (VictoriabankPaymentException ''Missing required parameter: extension'')"
  by (simp add: validate_params_nonempty REQUIRED_QR_PARAMS_def)

lemma validate_params_qr_ok:
  "dict_get d ''header'' \<noteq> PyNone \<Longrightarrow> dict_get d ''extension'' \<noteq> PyNone \<Longrightarrow>
   validate_params (Some d) (Some REQUIRED_QR_PARAMS) = Inr True"
  by (simp add: validate_params_def REQUIRED_QR_PARAMS_def)

lemma validate_params_test_pay:
  "d \<noteq> [] \<Longrightarrow> dict_get d ''qrHeaderUUID'' = PyNone \<Longrightarrow>
   validate_params (Some d) (Some REQUIRED_TEST_PAY_PARAMS) =
     Inl (VictoriabankPaymentException ''Missing required parameter: qrHeaderUUID'')"
  by (simp add: validate_params_nonempty REQUIRED_TEST_PAY_PARAMS_def)

lemma execute_operation_invalid:
  "validate_params data required_params = Inl e \<Longrightarrow>
   execute_operation client endpoint data token required_params method params s = (Inl e, s)"
  by (simp add: execute_operation_def)

lemma execute_operation_bad_token:
  "validate_params data required_params = Inr b \<Longrightarrow> validate_access_token token = Inl e \<Longrightarrow>
   execute_operation client endpoint data token required_params method params s = (Inl e, s)"
  by (simp add: execute_operation_def)

lemma execute_operation_send:
  "validate_params data required_params = Inr b \<Longrightarrow> validate_access_token token = Inr u \<Longrightarrow>
   execute_operation client endpoint data token required_params method params s =
     api_send_request client method endpoint token data params None s"
  by (simp add: execute_operation_def)

lemma execute_entity_id_operation_invalid:
  "validate_id_param entity_id = Inl e \<Longrightarrow>
   execute_entity_id_operation client endpoint entity_id token method data params s = (Inl e, s)"
  by (simp add: execute_entity_id_operation_def)

lemma execute_entity_id_operation_bad_token:
  "validate_id_param entity_id = Inr u \<Longrightarrow> validate_access_token token = Inl e \<Longrightarrow>
   execute_entity_id_operation client endpoint entity_id token method data params s = (Inl e, s)"
  by (simp add: execute_entity_id_operation_def)

lemma execute_entity_id_operation_send:
  "validate_id_param entity_id = Inr u \<Longrightarrow> validate_access_token token = Inr v \<Longrightarrow>
   execute_entity_id_operation client endpoint entity_id token method data params s =
     api_send_request client method endpoint token data params entity_id s"
  by (simp add: execute_entity_id_operation_def)

lemma sent_api_send_request:
  "sent (snd (api_send_request client method endpoint token data params entity_id s)) =
   sent s @ [\<lparr>req_method = method, req_url = endpoint, req_data = data,
              req_params = params, req_token = token, req_entity_id = entity_id\<rparr>]"
  by (simp add: api_send_request_def Let_def split: prod.splits sum.splits)

lemma api_send_request_propagate:
  "send_request client
     \<lparr>req_method = method, req_url = endpoint, req_data = data,
      req_params = params, req_token = token, req_entity_id = entity_id\<rparr> (world s) = (Inl ex, w) \<Longrightarrow>
   \<not> exc_is_Exception ex \<Longrightarrow>
   api_send_request client method endpoint token data params entity_id s =
   (Inl ex,
    \<lparr>world = w,
     sent = sent s @ [\<lparr>req_method = method, req_url = endpoint, req_data = data,
                       req_params = params, req_token = token, req_entity_id = entity_id\<rparr>]\<rparr>)"
  by (simp add: api_send_request_def Let_def)

lemma api_send_request_raise:
  "send_request client
     \<lparr>req_method = method, req_url = endpoint, req_data = data,
      req_params = params, req_token = token, req_entity_id = entity_id\<rparr> (world s) = (Inl ex, w) \<Longrightarrow>
   exc_is_Exception ex \<Longrightarrow>
   api_send_request client method endpoint token data params entity_id s =
   (Inl (PyException ''VictoriabankPaymentException''
          (''HTTP error while sending '' @ method @ '' request to endpoint '' @ endpoint
             @ '': '' @ exc_str ex) (Some ex) True),
    \<lparr>world = w,
     sent = sent s @ [\<lparr>req_method = method, req_url = endpoint, req_data = data,
                       req_params = params, req_token = token, req_entity_id = entity_id\<rparr>]\<rparr>)"
  by (simp add: api_send_request_def Let_def raise_from_def VictoriabankPaymentException_def)

lemma api_send_request_response:
  "send_request client
     \<lparr>req_method = method, req_url = endpoint, req_data = data,
      req_params = params, req_token = token, req_entity_id = entity_id\<rparr> (world s) = (Inr response, w) \<Longrightarrow>
   api_send_request client method endpoint token data params entity_id s =
   (fst (handle_response client response endpoint w),
    \<lparr>world = snd (handle_response client response endpoint w),
     sent = sent s @ [\<lparr>req_method = method, req_url = endpoint, req_data = data,
                       req_params = params, req_token = token, req_entity_id = entity_id\<rparr>]\<rparr>)"
  by (simp add: api_send_request_def Let_def split: prod.splits)

lemma execute_operation_cases:
  "execute_operation client endpoint data token required_params method params s = (r, s') \<Longrightarrow>
   s' = s \<or> (r, s') = api_send_request client method endpoint token data params None s"
  by (auto simp: execute_operation_def split: sum.splits)

lemma execute_entity_id_operation_cases:
  "execute_entity_id_operation client endpoint entity_id token method data params s = (r, s') \<Longrightarrow>
   s' = s \<or> (r, s') = api_send_request client method endpoint token data params entity_id s"
  by (auto simp: execute_entity_id_operation_def split: sum.splits)

lemma call_cases:
  "call client op token s = (r, s') \<Longrightarrow>
   s' = s \<or> (\<exists>endpoint data params entity_id.
               (r, s') = api_send_request client (spec_verb op) endpoint token data params entity_id s)"
  by (cases op)
    (simp_all add: op_defs,
     (blast dest: execute_operation_cases execute_entity_id_operation_cases)+)

lemma call_passes:
  "input_passes op \<Longrightarrow> t \<noteq> [] \<Longrightarrow>
   \<exists>endpoint data params entity_id.
      call client op (Some t) s =
        api_send_request client (spec_verb op) endpoint (Some t) data params entity_id s"
  by (cases op)
    (auto simp: op_defs validate_access_token_ok
          intro!: exI execute_operation_send execute_entity_id_operation_send)

lemma qr_create_missing_header:
  "d \<noteq> [] \<Longrightarrow> dict_get d ''header'' = PyNone \<Longrightarrow>
   qr_create client (Some d) params token s =
     (Inl (VictoriabankPaymentException ''Missing required parameter: header''), s)"
  by (simp add: qr_create_def execute_operation_invalid validate_params_qr_header)

lemma qr_create_missing_extension:
  "d \<noteq> [] \<Longrightarrow> dict_get d ''header'' \<noteq> PyNone \<Longrightarrow> dict_get d ''extension'' = PyNone \<Longrightarrow>
   qr_create client (Some d) params token s =
     (Inl (VictoriabankPaymentException ''Missing required parameter: extension''), s)"
  by (simp add: qr_create_def execute_operation_invalid validate_params_qr_extension)

lemma test_pay_missing_uuid:
  "d \<noteq> [] \<Longrightarrow> dict_get d ''qrHeaderUUID'' = PyNone \<Longrightarrow>
   test_pay client (Some d) token s =
     (Inl (VictoriabankPaymentException ''Missing required parameter: qrHeaderUUID''), s)"
  by (simp add: test_pay_def execute_operation_invalid validate_params_test_pay)

lemma entity_id_operations_missing_id:
  assumes "entity_id = None \<or> entity_id = Some []"
  shows "qr_status client entity_id params token s =
           (Inl (VictoriabankPaymentException ''Missing ID.''), s)"
    and "qr_cancel client entity_id token s =
           (Inl (VictoriabankPaymentException ''Missing ID.''), s)"
    and "qr_create_extension client entity_id data token s =
           (Inl (VictoriabankPaymentException ''Missing ID.''), s)"
    and "qr_cancel_extension client entity_id token s =
           (Inl (VictoriabankPaymentException ''Missing ID.''), s)"
    and "qr_extension_status client entity_id params token s =
           (Inl (VictoriabankPaymentException ''Missing ID.''), s)"
    and "payment_details client entity_id token s =
           (Inl (VictoriabankPaymentException ''Missing ID.''), s)"
    and "payment_refund client entity_id data token s =
           (Inl (VictoriabankPaymentException ''Missing ID.''), s)"
  using validate_id_param_empty [OF assms]
  by (simp_all add: op_defs execute_entity_id_operation_invalid)

lemma entity_id_operations_send:
  assumes "i \<noteq> []" and "t \<noteq> []"
  shows "qr_status client (Some i) params (Some t) s =
           api_send_request client ''GET'' (MIA_QR_STATUS client) (Some t) None params (Some i) s"
    and "qr_cancel client (Some i) (Some t) s =
           api_send_request client ''DELETE'' (MIA_QR_ID client) (Some t) None None (Some i) s"
    and "qr_create_extension client (Some i) data (Some t) s =
           api_send_request client ''POST'' (MIA_QR_EXTENSIONS client) (Some t) data None (Some i) s"
    and "qr_cancel_extension client (Some i) (Some t) s =
           api_send_request client ''DELETE'' (MIA_QR_ACTIVE_EXTENSION client) (Some t) None None
             (Some i) s"
    and "qr_extension_status client (Some i) params (Some t) s =
           api_send_request client ''GET'' (MIA_QR_EXTENSION_STATUS client) (Some t) None params
             (Some i) s"
    and "payment_details client (Some i) (Some t) s =
           api_send_request client ''GET'' (MIA_PAYMENTS_ID client) (Some t) None None (Some i) s"
    and "payment_refund client (Some i) data (Some t) s =
           api_send_request client ''POST'' (MIA_PAYMENTS_REFUND client) (Some t) data None
             (Some i) s"
  using validate_id_param_ok [OF assms(1)] validate_access_token_ok [OF assms(2)]
  by (simp_all add: op_defs execute_entity_id_operation_send)

lemmas eval_defs = op_defs execute_operation_def execute_entity_id_operation_def
  api_send_request_def validate_params_def validate_access_token_def validate_id_param_def
  truthy_def py_len_def dict_get_def REQUIRED_QR_PARAMS_def REQUIRED_TEST_PAY_PARAMS_def
  VictoriabankPaymentException_def raise_from_def online_client_def offline_client_def
  interrupted_client_def
  idle_def Let_def

section \<open>Missing required fields\<close>

text \<open>
  C1, for non-empty payloads. When \<^verbatim>\<open>qr_create\<close> or \<^verbatim>\<open>test_pay\<close> is called with
  a non-empty payload in which a required field is missing (absent, or mapped to
  \<^verbatim>\<open>None\<close>), the call raises the missing-field error naming the first missing field
  of the required-field list, and the state is returned as it was: nothing is sent.
\<close>

theorem missing_field_rejected:
  assumes "d \<noteq> []"
  shows "(dict_get d ''header'' = PyNone \<longrightarrow>
            qr_create client (Some d) params token s =
              (Inl (VictoriabankPaymentException ''Missing required parameter: header''), s))
       \<and> (dict_get d ''header'' \<noteq> PyNone \<and> dict_get d ''extension'' = PyNone \<longrightarrow>
            qr_create client (Some d) params token s =
              (Inl (VictoriabankPaymentException ''Missing required parameter: extension''), s))
       \<and> (dict_get d ''qrHeaderUUID'' = PyNone \<longrightarrow>
            test_pay client (Some d) token s =
              (Inl (VictoriabankPaymentException ''Missing required parameter: qrHeaderUUID''), s))"
  using assms
  by (simp add: qr_create_missing_header qr_create_missing_extension test_pay_missing_uuid)

theorem missing_field_rejected_witness:
  "dict_get [(''header'', PyNone), (''amount'', PyInt 5)] ''header'' = PyNone
   \<and> qr_create online_client (Some [(''header'', PyNone), (''amount'', PyInt 5)]) None
       (Some ''token'') idle =
       (Inl (VictoriabankPaymentException ''Missing required parameter: header''), idle)
   \<and> dict_get [(''header'', PyDict [])] ''header'' \<noteq> PyNone
   \<and> dict_get [(''header'', PyDict [])] ''extension'' = PyNone
   \<and> qr_create online_client (Some [(''header'', PyDict [])]) None (Some ''token'') idle =
       (Inl (VictoriabankPaymentException ''Missing required parameter: extension''), idle)
   \<and> dict_get [(''amount'', PyInt 5)] ''qrHeaderUUID'' = PyNone
   \<and> test_pay online_client (Some [(''amount'', PyInt 5)]) (Some ''token'') idle =
       (Inl (VictoriabankPaymentException ''Missing required parameter: qrHeaderUUID''), idle)"
  using missing_field_rejected
          [of "[(''header'', PyNone), (''amount'', PyInt 5)]" online_client None "Some ''token''" idle]
        missing_field_rejected
          [of "[(''header'', PyDict [])]" online_client None "Some ''token''" idle]
        missing_field_rejected
          [of "[(''amount'', PyInt 5)]" online_client None "Some ''token''" idle]
  by (simp add: dict_get_def)

text \<open>
  C1 does not extend to the empty payload: \<^verbatim>\<open>header\<close> is missing from it, yet the
  guard of \<^verbatim>\<open>_validate_params\<close> skips the loop, \<^verbatim>\<open>qr_create\<close> raises nothing and
  the request is sent.
\<close>

theorem empty_payload_is_sent:
  "dict_get [] ''header'' = PyNone
   \<and> qr_create online_client (Some []) None (Some ''token'') idle =
       (Inr ''POST /api/v1/qr'',
        \<lparr>world = 1,
         sent = [\<lparr>req_method = ''POST'', req_url = ''/api/v1/qr'', req_data = Some [],
                  req_params = None, req_token = Some ''token'', req_entity_id = None\<rparr>]\<rparr>)"
  by (simp add: eval_defs)

section \<open>A valid QR creation\<close>

text \<open>
  C2. For a payload whose \<^verbatim>\<open>header\<close> and \<^verbatim>\<open>extension\<close> are not \<^verbatim>\<open>None\<close> and a
  non-empty token, \<^verbatim>\<open>qr_create\<close> hands exactly one request to the client's
  \<^verbatim>\<open>send_request\<close>: verb POST, the endpoint \<^verbatim>\<open>MIA_QR\<close>, the payload as body, the
  token, no identifier. When the client returns a raw response, the outcome of the call
  is the outcome of \<^verbatim>\<open>handle_response\<close> on that response and the endpoint.
\<close>

theorem qr_create_dispatch:
  assumes "dict_get d ''header'' \<noteq> PyNone"
      and "dict_get d ''extension'' \<noteq> PyNone"
      and "t \<noteq> []"
  shows "sent (snd (qr_create client (Some d) params (Some t) s)) =
           sent s @ [\<lparr>req_method = ''POST'', req_url = MIA_QR client, req_data = Some d,
                      req_params = params, req_token = Some t, req_entity_id = None\<rparr>]
       \<and> (send_request client
             \<lparr>req_method = ''POST'', req_url = MIA_QR client, req_data = Some d,
              req_params = params, req_token = Some t, req_entity_id = None\<rparr> (world s)
             = (Inr response, w) \<longrightarrow>
           fst (qr_create client (Some d) params (Some t) s) =
             fst (handle_response client response (MIA_QR client) w)
           \<and> world (snd (qr_create client (Some d) params (Some t) s)) =
             snd (handle_response client response (MIA_QR client) w))"
proof -
  have run: "qr_create client (Some d) params (Some t) s =
             api_send_request client ''POST'' (MIA_QR client) (Some t) (Some d) params None s"
    unfolding qr_create_def
    by (rule execute_operation_send
          [OF validate_params_qr_ok [OF assms(1,2)] validate_access_token_ok [OF assms(3)]])
  show ?thesis
    by (simp add: run sent_api_send_request api_send_request_response)
qed

theorem qr_create_dispatch_witness:
  "dict_get [(''header'', PyDict []), (''extension'', PyDict [])] ''header'' \<noteq> PyNone
   \<and> dict_get [(''header'', PyDict []), (''extension'', PyDict [])] ''extension'' \<noteq> PyNone
   \<and> ''token'' \<noteq> []
   \<and> send_request online_client
        \<lparr>req_method = ''POST'', req_url = MIA_QR online_client,
         req_data = Some [(''header'', PyDict []), (''extension'', PyDict [])],
         req_params = None, req_token = Some ''token'', req_entity_id = None\<rparr> (world idle)
        = (Inr ''POST'', 1)
   \<and> sent (snd (qr_create online_client
                   (Some [(''header'', PyDict []), (''extension'', PyDict [])]) None
                   (Some ''token'') idle)) =
        [\<lparr>req_method = ''POST'', req_url = ''/api/v1/qr'',
          req_data = Some [(''header'', PyDict []), (''extension'', PyDict [])],
          req_params = None, req_token = Some ''token'', req_entity_id = None\<rparr>]
   \<and> fst (qr_create online_client
             (Some [(''header'', PyDict []), (''extension'', PyDict [])]) None
             (Some ''token'') idle) = Inr ''POST /api/v1/qr''"
proof -
  let ?d = "[(''header'', PyDict []), (''extension'', PyDict [])]"
  have h: "dict_get ?d ''header'' \<noteq> PyNone" "dict_get ?d ''extension'' \<noteq> PyNone"
    "''token'' \<noteq> []"
    by (simp_all add: dict_get_def)
  have snd: "send_request online_client
        \<lparr>req_method = ''POST'', req_url = MIA_QR online_client, req_data = Some ?d,
         req_params = None, req_token = Some ''token'', req_entity_id = None\<rparr> (world idle)
        = (Inr ''POST'', 1)"
    by (simp add: online_client_def idle_def)
  from qr_create_dispatch [OF h, of online_client None idle "''POST''" 1] h snd
  show ?thesis
    by (simp add: online_client_def idle_def)
qed

section \<open>Transport faults\<close>

text \<open>
  C3, for instances of \<^verbatim>\<open>Exception\<close>. For every operation: when the call handed a
  request to the client's \<^verbatim>\<open>send_request\<close> and the client raised on it an \<open>ex\<close>
  that is an instance of \<^verbatim>\<open>Exception\<close>, the caller receives a
  \<^verbatim>\<open>VictoriabankPaymentException\<close> whose message holds the verb and the endpoint of
  the request and the text of \<open>ex\<close>, and whose cause is \<open>ex\<close>; \<open>ex\<close> itself is
  not what the call raises.
\<close>

theorem transport_fault_wrapped:
  assumes "call client op token s = (r, s')"
      and "sent s' = sent s @ [req]"
      and "send_request client req (world s) = (Inl ex, w)"
      and "exc_is_Exception ex"
  shows "r = Inl (PyException ''VictoriabankPaymentException''
                   (''HTTP error while sending '' @ req_method req @ '' request to endpoint ''
                      @ req_url req @ '': '' @ exc_str ex)
                   (Some ex) True)
         \<and> r \<noteq> Inl ex
         \<and> s' = \<lparr>world = w, sent = sent s @ [req]\<rparr>"
proof -
  from assms(2) have "s' \<noteq> s" by auto
  with call_cases [OF assms(1)] obtain endpoint data params entity_id where
    run: "(r, s') = api_send_request client (spec_verb op) endpoint token data params entity_id s"
    by blast
  let ?req = "\<lparr>req_method = spec_verb op, req_url = endpoint, req_data = data,
              req_params = params, req_token = token, req_entity_id = entity_id\<rparr>"
  have "sent s' = sent s @ [?req]"
    using sent_api_send_request [of client "spec_verb op" endpoint token data params entity_id s]
    by (simp add: run [symmetric])
  with assms(2) have req: "req = ?req" by simp
  from assms(3) have "send_request client ?req (world s) = (Inl ex, w)"
    by (simp add: req)
  from api_send_request_raise [OF this assms(4)] run
  have "r = Inl (PyException ''VictoriabankPaymentException''
                   (''HTTP error while sending '' @ req_method req @ '' request to endpoint ''
                      @ req_url req @ '': '' @ exc_str ex)
                   (Some ex) True)"
    and "s' = \<lparr>world = w, sent = sent s @ [req]\<rparr>"
    by (simp_all add: req)
  moreover have "PyException c m (Some ex) b \<noteq> ex" for c m b
  proof
    assume "PyException c m (Some ex) b = ex"
    then have "size (PyException c m (Some ex) b) = size ex" by simp
    then show False by simp
  qed
  ultimately show ?thesis by simp
qed

theorem transport_fault_wrapped_witness:
  "call offline_client (Qr_cancel (Some ''abc-123'')) (Some ''token'') idle =
     (Inl (PyException ''VictoriabankPaymentException''
             ''HTTP error while sending DELETE request to endpoint /api/v1/qr/{qrHeaderUUID}: connection refused''
             (Some (PyException ''ConnectionError'' ''connection refused'' None True)) True),
      \<lparr>world = 0,
       sent = [\<lparr>req_method = ''DELETE'', req_url = ''/api/v1/qr/{qrHeaderUUID}'',
                req_data = None, req_params = None, req_token = Some ''token'',
                req_entity_id = Some ''abc-123''\<rparr>]\<rparr>)
   \<and> send_request offline_client
         \<lparr>req_method = ''DELETE'', req_url = ''/api/v1/qr/{qrHeaderUUID}'',
          req_data = None, req_params = None, req_token = Some ''token'',
          req_entity_id = Some ''abc-123''\<rparr> (world idle) =
       (Inl (PyException ''ConnectionError'' ''connection refused'' None True), 0)
   \<and> exc_is_Exception (PyException ''ConnectionError'' ''connection refused'' None True)"
proof -
  let ?req = "\<lparr>req_method = ''DELETE'', req_url = ''/api/v1/qr/{qrHeaderUUID}'',
                req_data = None, req_params = None, req_token = Some ''token'',
                req_entity_id = Some ''abc-123''\<rparr>"
  let ?ex = "PyException ''ConnectionError'' ''connection refused'' None True"
  obtain r s' where
    run: "call offline_client (Qr_cancel (Some ''abc-123'')) (Some ''token'') idle = (r, s')"
    by (cases "call offline_client (Qr_cancel (Some ''abc-123'')) (Some ''token'') idle")
  have log: "sent s' = sent idle @ [?req]"
    using run by (auto simp: eval_defs)
  have raise: "send_request offline_client ?req (world idle) = (Inl ?ex, 0)"
    by (simp add: offline_client_def online_client_def idle_def)
  have inst: "exc_is_Exception ?ex"
    by simp
  from transport_fault_wrapped [OF run log raise inst] run raise show ?thesis
    by (simp add: idle_def)
qed

text \<open>
  C3 does not extend to what is raised outside \<^verbatim>\<open>Exception\<close>: the clause
  \<^verbatim>\<open>except Exception\<close> lets a \<^verbatim>\<open>KeyboardInterrupt\<close> raised by the client's
  \<^verbatim>\<open>send_request\<close> through, and \<^verbatim>\<open>qr_cancel\<close> raises it as it is.
\<close>

theorem interrupt_not_wrapped:
  "send_request interrupted_client
     \<lparr>req_method = ''DELETE'', req_url = ''/api/v1/qr/{qrHeaderUUID}'',
      req_data = None, req_params = None, req_token = Some ''token'',
      req_entity_id = Some ''abc-123''\<rparr> (world idle) =
     (Inl (PyException ''KeyboardInterrupt'' [] None False), 0)
   \<and> call interrupted_client (Qr_cancel (Some ''abc-123'')) (Some ''token'') idle =
       (Inl (PyException ''KeyboardInterrupt'' [] None False),
        \<lparr>world = 0,
         sent = [\<lparr>req_method = ''DELETE'', req_url = ''/api/v1/qr/{qrHeaderUUID}'',
                  req_data = None, req_params = None, req_token = Some ''token'',
                  req_entity_id = Some ''abc-123''\<rparr>]\<rparr>)"
  by (simp add: eval_defs)

section \<open>Token validation\<close>

text \<open>
  C4. For every operation whose payload or identifier passes its own validation, a
  token that is \<^verbatim>\<open>None\<close> or the empty string makes the call raise the token error,
  and the state is returned as it was: nothing is sent.
\<close>

theorem empty_token_rejected:
  assumes "input_passes op"
      and "token = None \<or> token = Some []"
  shows "call client op token s =
           (Inl (VictoriabankPaymentException
                   ''Access token is not valid. It should be a non-empty string.''), s)"
  using assms(1) validate_access_token_empty [OF assms(2)]
  by (cases op)
    (simp_all add: op_defs execute_operation_bad_token execute_entity_id_operation_bad_token)

theorem empty_token_rejected_witness:
  "input_passes (Qr_create (Some [(''header'', PyDict []), (''extension'', PyDict [])]) None)
   \<and> call online_client
        (Qr_create (Some [(''header'', PyDict []), (''extension'', PyDict [])]) None)
        (Some []) idle =
       (Inl (VictoriabankPaymentException
               ''Access token is not valid. It should be a non-empty string.''), idle)
   \<and> input_passes (Payment_details (Some ''abc-123''))
   \<and> call online_client (Payment_details (Some ''abc-123'')) None idle =
       (Inl (VictoriabankPaymentException
               ''Access token is not valid. It should be a non-empty string.''), idle)"
proof -
  have a: "input_passes (Qr_create (Some [(''header'', PyDict []), (''extension'', PyDict [])]) None)"
    by (simp add: validate_params_def truthy_def dict_get_def REQUIRED_QR_PARAMS_def)
  have b: "input_passes (Payment_details (Some ''abc-123''))"
    by (simp add: validate_id_param_def truthy_def py_len_def)
  from a b empty_token_rejected [OF a, of "Some []" online_client idle]
    empty_token_rejected [OF b, of None online_client idle]
  show ?thesis by simp
qed

section \<open>Identifier validation\<close>

text \<open>
  C5. Each of the seven identifier-based operations, called with an identifier that is
  \<^verbatim>\<open>None\<close> or the empty string, raises the identifier error \<^verbatim>\<open>Missing ID.\<close>, and
  the state is returned as it was: nothing is sent.
\<close>

theorem empty_identifier_rejected:
  assumes "entity_id = None \<or> entity_id = Some []"
  shows "qr_status client entity_id params token s =
           (Inl (VictoriabankPaymentException ''Missing ID.''), s)
       \<and> qr_cancel client entity_id token s =
           (Inl (VictoriabankPaymentException ''Missing ID.''), s)
       \<and> qr_create_extension client entity_id data token s =
           (Inl (VictoriabankPaymentException ''Missing ID.''), s)
       \<and> qr_cancel_extension client entity_id token s =
           (Inl (VictoriabankPaymentException ''Missing ID.''), s)
       \<and> qr_extension_status client entity_id params token s =
           (Inl (VictoriabankPaymentException ''Missing ID.''), s)
       \<and> payment_details client entity_id token s =
           (Inl (VictoriabankPaymentException ''Missing ID.''), s)
       \<and> payment_refund client entity_id data token s =
           (Inl (VictoriabankPaymentException ''Missing ID.''), s)"
  by (simp add: entity_id_operations_missing_id [OF assms])

theorem empty_identifier_rejected_witness:
  "qr_status online_client (Some []) None (Some ''token'') idle =
     (Inl (VictoriabankPaymentException ''Missing ID.''), idle)
   \<and> payment_refund online_client None (Some [(''amount'', PyInt 5)]) (Some ''token'') idle =
     (Inl (VictoriabankPaymentException ''Missing ID.''), idle)"
  using empty_identifier_rejected
          [of "Some []" online_client None "Some ''token''" idle None]
        empty_identifier_rejected
          [of None online_client None "Some ''token''" idle "Some [(''amount'', PyInt 5)]"]
  by simp

text \<open>
  C6. Identifier validation asks for nothing but a non-empty string: every non-empty
  identifier, whatever its length, passes \<^verbatim>\<open>_validate_id_param\<close>, and each of the
  seven identifier-based operations then goes on to token validation and, with a
  non-empty token, to \<^verbatim>\<open>_send_request\<close> with that identifier.
\<close>

theorem nonempty_identifier_accepted:
  assumes "i \<noteq> []"
  shows "validate_id_param (Some i) = Inr ()
       \<and> (t \<noteq> [] \<longrightarrow>
            qr_status client (Some i) params (Some t) s =
              api_send_request client ''GET'' (MIA_QR_STATUS client) (Some t) None params
                (Some i) s
          \<and> qr_cancel client (Some i) (Some t) s =
              api_send_request client ''DELETE'' (MIA_QR_ID client) (Some t) None None
                (Some i) s
          \<and> qr_create_extension client (Some i) data (Some t) s =
              api_send_request client ''POST'' (MIA_QR_EXTENSIONS client) (Some t) data None
                (Some i) s
          \<and> qr_cancel_extension client (Some i) (Some t) s =
              api_send_request client ''DELETE'' (MIA_QR_ACTIVE_EXTENSION client) (Some t)
                None None (Some i) s
          \<and> qr_extension_status client (Some i) params (Some t) s =
              api_send_request client ''GET'' (MIA_QR_EXTENSION_STATUS client) (Some t)
                None params (Some i) s
          \<and> payment_details client (Some i) (Some t) s =
              api_send_request client ''GET'' (MIA_PAYMENTS_ID client) (Some t) None None
                (Some i) s
          \<and> payment_refund client (Some i) data (Some t) s =
              api_send_request client ''POST'' (MIA_PAYMENTS_REFUND client) (Some t) data None
                (Some i) s)"
  using assms
  by (simp add: validate_id_param_ok entity_id_operations_send)

theorem nonempty_identifier_accepted_witness:
  "length ''abc-123'' = 7
   \<and> validate_id_param (Some ''abc-123'') = Inr ()
   \<and> qr_status online_client (Some ''abc-123'') (Some []) (Some ''token'') idle =
       (Inr ''GET /api/v1/qr/{qrHeaderUUID}/status'',
        \<lparr>world = 1,
         sent = [\<lparr>req_method = ''GET'', req_url = ''/api/v1/qr/{qrHeaderUUID}/status'',
                  req_data = None, req_params = Some [], req_token = Some ''token'',
                  req_entity_id = Some ''abc-123''\<rparr>]\<rparr>)"
  using nonempty_identifier_accepted
          [of "''abc-123''" "''token''" online_client "Some []" idle None]
  by (simp add: api_send_request_def online_client_def idle_def)

section \<open>HTTP verbs\<close>

text \<open>
  C7. Whenever an operation hands a request to the client, the verb of the request is
  the one the operation table gives for it; and an operation whose input passes
  validation, called with a non-empty token, invokes the client's \<^verbatim>\<open>send_request\<close>
  on one request with that verb: the request is logged, and the outcome of the call is
  what follows from the client's answer to it. In particular, with a non-empty
  identifier and a non-empty token, \<^verbatim>\<open>qr_cancel\<close> invokes \<^verbatim>\<open>send_request\<close> exactly
  once, with verb DELETE on the endpoint \<^verbatim>\<open>MIA_QR_ID\<close>, and \<^verbatim>\<open>payment_refund\<close>
  exactly once, with verb POST on the endpoint \<^verbatim>\<open>MIA_PAYMENTS_        sent (snd (payment_refund client (Some i) data (Some t) s)) = sent s @ [\<lparr>req_method = ''POST'', req_url = MIA_PAYMENTS_REFUND client, req_data = data,
              req_params = None, req_token = Some t, req_entity_id = Some i\<rparr>]
        \<and> (send_request client \<lparr>req_method = ''POST'', req_url = MIA_PAYMENTS_REFUND client, req_data = data,
              req_params = None, req_token = Some t, req_entity_id = Some i\<rparr> (world s) = (Inr response, w) \<longrightarrow>
             fst (payment_refund client (Some i) data (Some t) s) = fst (handle_response client response (MIA_PAYMENTS_REFUND client) w)
           \<and> world (snd (payment_refund client (Some i) data (Some t) s)) = snd (handle_response client response (MIA_PAYMENTS_REFUND client) w))
        \<and> (send_request client \<lparr>req_method = ''POST'', req_url = MIA_PAYMENTS_REFUND client, req_data = data,
              req_params = None, req_token = Some t, req_entity_id = Some i\<rparr> (world s) = (Inl ex, w) \<longrightarrow>
             fst (payment_refund client (Some i) data (Some t) s) =
               Inl (if exc_is_Exception ex
                    then PyException ''VictoriabankPaymentException''
                           (''HTTP error while sending '' @ ''POST'' @ '' request to endpoint ''
                              @ MIA_PAYMENTS_REFUND client @ '': '' @ exc_str ex)
                           (Some ex) True
                    else ex)
           \<and> world (snd (payment_refund client (Some i) data (Some t) s)) = w)\<close>: a raw response
  goes to \<^verbatim>\<open>handle_response\<close> with that endpoint, an exception is wrapped with that
  verb and endpoint in the message.
\<close>

theorem dispatch_verbs:
  "(call client op token s = (r, s') \<and> sent s' = sent s @ [req] \<longrightarrow>
      req_method req = spec_verb op)
   \<and> (input_passes op \<and> t \<noteq> [] \<longrightarrow>
        (\<exists>q. req_method q = spec_verb op \<and> req_token q = Some t
           \<and> sent (snd (call client op (Some t) s)) = sent s @ [q]
           \<and> (\<forall>response w.
                 send_request client q (world s) = (Inr response, w) \<longrightarrow>
                   fst (call client op (Some t) s) =
                     fst (handle_response client response (req_url q) w)
                 \<and> world (snd (call client op (Some t) s)) =
                     snd (handle_response client response (req_url q) w))
           \<and> (\<forall>ex w.
                 send_request client q (world s) = (Inl ex, w) \<longrightarrow>
                   fst (call client op (Some t) s) =
                     Inl (if exc_is_Exception ex
                          then PyException ''VictoriabankPaymentException''
                                 (''HTTP error while sending '' @ spec_verb op
                                    @ '' request to endpoint '' @ req_url q @ '': ''
                                    @ exc_str ex)
                                 (Some ex) True
                          else ex)
                 \<and> world (snd (call client op (Some t) s)) = w)))
   \<and> (i \<noteq> [] \<and> t \<noteq> [] \<longrightarrow>
        sent (snd (qr_cancel client (Some i) (Some t) s)) =
          sent s @ [\<lparr>req_method = ''DELETE'', req_url = MIA_QR_ID client, req_data = None,
                     req_params = None, req_token = Some t, req_entity_id = Some i\<rparr>]
      \<and> (send_request client
            \<lparr>req_method = ''DELETE'', req_url = MIA_QR_ID client, req_data = None,
             req_params = None, req_token = Some t, req_entity_id = Some i\<rparr> (world s)
            = (Inr response, w) \<longrightarrow>
          fst (qr_cancel client (Some i) (Some t) s) =
            fst (handle_response client response (MIA_QR_ID client) w)
          \<and> world (snd (qr_cancel client (Some i) (Some t) s)) =
            snd (handle_response client response (MIA_QR_ID client) w))
      \<and> (send_request client
            \<lparr>req_method = ''DELETE'', req_url = MIA_QR_ID client, req_data = None,
             req_params = None, req_token = Some t, req_entity_id = Some i\<rparr> (world s)
            = (Inl ex, w) \<longrightarrow>
          fst (qr_cancel client (Some i) (Some t) s) =
            Inl (if exc_is_Exception ex
                 then PyException ''VictoriabankPaymentException''
                        (''HTTP error while sending DELETE request to endpoint ''
                           @ MIA_QR_ID client @ '': '' @ exc_str ex)
                        (Some ex) True
                 else ex)
          \<and> world (snd (qr_cancel client (Some i) (Some t) s)) = w)
      \<and> sent (snd (payment_refund client (Some i) data (Some t) s)) =
          sent s @ [\<lparr>req_method = ''POST'', req_url = MIA_PAYMENTS_REFUND client,
                     req_data = data, req_params = None, req_token = Some t,
                     req_entity_id = Some i\<rparr>]
      \<and> (send_request client
            \<lparr>req_method = ''POST'', req_url = MIA_PAYMENTS_REFUND client, req_data = data,
             req_params = None, req_token = Some t, req_entity_id = Some i\<rparr> (world s)
            = (Inr response, w) \<longrightarrow>
          fst (payment_refund client (Some i) data (Some t) s) =
            fst (handle_response client response (MIA_PAYMENTS_REFUND client) w)
          \<and> world (snd (payment_refund client (Some i) data (Some t) s)) =
            snd (handle_response client response (MIA_PAYMENTS_REFUND client) w))
      \<and> (send_request client
            \<lparr>req_method = ''POST'', req_url = MIA_PAYMENTS_REFUND client, req_data = data,
             req_params = None, req_token = Some t, req_entity_id = Some i\<rparr> (world s)
            = (Inl ex, w) \<longrightarrow>
          fst (payment_refund client (Some i) data (Some t) s) =
            Inl (if exc_is_Exception ex
                 then PyException ''VictoriabankPaymentException''
                        (''HTTP error while sending POST request to endpoint ''
                           @ MIA_PAYMENTS_REFUND client @ '': '' @ exc_str ex)
                        (Some ex) True
                 else ex)
          \<and> world (snd (payment_refund client (Some i) data (Some t) s)) = w))"
proof (rule conjI [OF _ conjI]; rule impI)
  assume a: "call client op token s = (r, s') \<and> sent s' = sent s @ [req]"
  then have "s' \<noteq> s" by auto
  with call_cases [of client op token s r s'] a obtain endpoint data' params entity_id where
    run: "(r, s') = api_send_request client (spec_verb op) endpoint token data' params entity_id s"
    by blast
  have "sent s' = sent s @ [\<lparr>req_method = spec_verb op, req_url = endpoint, req_data = data',
              req_params = params, req_token = token, req_entity_id = entity_id\<rparr>]"
    using sent_api_send_request [of client "spec_verb op" endpoint token data' params entity_id s]
    by (simp add: run [symmetric])
  with a show "req_method req = spec_verb op" by auto
next
  assume "input_passes op \<and> t \<noteq> []"
  then obtain endpoint data' params entity_id where
    run: "call client op (Some t) s =
       api_send_request client (spec_verb op) endpoint (Some t) data' params entity_id s"
    using call_passes [of op t client s] by blast
  show "\<exists>q. req_method q = spec_verb op \<and> req_token q = Some t
           \<and> sent (snd (call client op (Some t) s)) = sent s @ [q]
           \<and> (\<forall>response w.
                 send_request client q (world s) = (Inr response, w) \<longrightarrow>
                   fst (call client op (Some t) s) =
                     fst (handle_response client response (req_url q) w)
                 \<and> world (snd (call client op (Some t) s)) =
                     snd (handle_response client response (req_url q) w))
           \<and> (\<forall>ex w.
                 send_request client q (world s) = (Inl ex, w) \<longrightarrow>
                   fst (call client op (Some t) s) =
                     Inl (if exc_is_Exception ex
                          then PyException ''VictoriabankPaymentException''
                                 (''HTTP error while sending '' @ spec_verb op
                                    @ '' request to endpoint '' @ req_url q @ '': ''
                                    @ exc_str ex)
                                 (Some ex) True
                          else ex)
                 \<and> world (snd (call client op (Some t) s)) = w)"
    unfolding run
    by (rule exI [of _ "\<lparr>req_method = spec_verb op, req_url = endpoint, req_data = data',
                          req_params = params, req_token = Some t,
                          req_entity_id = entity_id\<rparr>"])
      (simp add: sent_api_send_request api_send_request_response api_send_request_raise
         api_send_request_propagate)
next
  assume "i \<noteq> [] \<and> t \<noteq> []"
  then have cancel: "qr_cancel client (Some i) (Some t) s =
      api_send_request client ''DELETE'' (MIA_QR_ID client) (Some t) None None (Some i) s"
    and refund: "payment_refund client (Some i) data (Some t) s =
      api_send_request client ''POST'' (MIA_PAYMENTS_REFUND client) (Some t) data None
        (Some i) s"
    by (simp_all add: entity_id_operations_send)
  show "sent (snd (qr_cancel client (Some i) (Some t) s)) =
          sent s @ [\<lparr>req_method = ''DELETE'', req_url = MIA_QR_ID client, req_data = None,
                     req_params = None, req_token = Some t, req_entity_id = Some i\<rparr>]
      \<and> (send_request client
            \<lparr>req_method = ''DELETE'', req_url = MIA_QR_ID client, req_data = None,
             req_params = None, req_token = Some t, req_entity_id = Some i\<rparr> (world s)
            = (Inr response, w) \<longrightarrow>
          fst (qr_cancel client (Some i) (Some t) s) =
            fst (handle_response client response (MIA_QR_ID client) w)
          \<and> world (snd (qr_cancel client (Some i) (Some t) s)) =
            snd (handle_response client response (MIA_QR_ID client) w))
      \<and> (send_request client
            \<lparr>req_method = ''DELETE'', req_url = MIA_QR_ID client, req_data = None,
             req_params = None, req_token = Some t, req_entity_id = Some i\<rparr> (world s)
            = (Inl ex, w) \<longrightarrow>
          fst (qr_cancel client (Some i) (Some t) s) =
            Inl (if exc_is_Exception ex
                 then PyException ''VictoriabankPaymentException''
                        (''HTTP error while sending DELETE request to endpoint ''
                           @ MIA_QR_ID client @ '': '' @ exc_str ex)
                        (Some ex) True
                 else ex)
          \<and> world (snd (qr_cancel client (Some i) (Some t) s)) = w)
      \<and> sent (snd (payment_refund client (Some i) data (Some t) s)) =
          sent s @ [\<lparr>req_method = ''POST'', req_url = MIA_PAYMENTS_REFUND client,
                     req_data = data, req_params = None, req_token = Some t,
                     req_entity_id = Some i\<rparr>]
      \<and> (send_request client
            \<lparr>req_method = ''POST'', req_url = MIA_PAYMENTS_REFUND client, req_data = data,
             req_params = None, req_token = Some t, req_entity_id = Some i\<rparr> (world s)
            = (Inr response, w) \<longrightarrow>
          fst (payment_refund client (Some i) data (Some t) s) =
            fst (handle_response client response (MIA_PAYMENTS_REFUND client) w)
          \<and> world (snd (payment_refund client (Some i) data (Some t) s)) =
            snd (handle_response client response (MIA_PAYMENTS_REFUND client) w))
      \<and> (send_request client
            \<lparr>req_method = ''POST'', req_url = MIA_PAYMENTS_REFUND client, req_data = data,
             req_params = None, req_token = Some t, req_entity_id = Some i\<rparr> (world s)
            = (Inl ex, w) \<longrightarrow>
          fst (payment_refund client (Some i) data (Some t) s) =
            Inl (if exc_is_Exception ex
                 then PyException ''VictoriabankPaymentException''
                        (''HTTP error while sending POST request to endpoint ''
                           @ MIA_PAYMENTS_REFUND client @ '': '' @ exc_str ex)
                        (Some ex) True
                 else ex)
          \<and> world (snd (payment_refund client (Some i) data (Some t) s)) = w)"
    unfolding cancel refund
    by (simp add: sent_api_send_request api_send_request_response api_send_request_raise
          api_send_request_propagate)
qed

theorem dispatch_verbs_witness:
  "call online_client (Qr_cancel (Some ''abc-123'')) (Some ''token'') idle =
     (Inr ''DELETE /api/v1/qr/{qrHeaderUUID}'',
      \<lparr>world = 1,
       sent = [\<lparr>req_method = ''DELETE'', req_url = ''/api/v1/qr/{qrHeaderUUID}'',
                req_data = None, req_params = None, req_token = Some ''token'',
                req_entity_id = Some ''abc-123''\<rparr>]\<rparr>)
   \<and> req_method
        \<lparr>req_method = ''DELETE'', req_url = ''/api/v1/qr/{qrHeaderUUID}'',
         req_data = None, req_params = None, req_token = Some ''token'',
         req_entity_id = Some ''abc-123''\<rparr> = spec_verb (Qr_cancel (Some ''abc-123''))
   \<and> input_passes (Qr_cancel (Some ''abc-123''))
   \<and> send_request online_client
        \<lparr>req_method = ''DELETE'', req_url = MIA_QR_ID online_client, req_data = None,
         req_params = None, req_token = Some ''token'', req_entity_id = Some ''abc-123''\<rparr>
        (world idle) = (Inr ''DELETE'', 1)
   \<and> fst (qr_cancel online_client (Some ''abc-123'') (Some ''token'') idle) =
       fst (handle_response online_client ''DELETE'' (MIA_QR_ID online_client) 1)
   \<and> send_request offline_client
        \<lparr>req_method = ''POST'', req_url = MIA_PAYMENTS_REFUND offline_client,
         req_data = Some [(''amount'', PyInt 5)], req_params = None,
         req_token = Some ''token'', req_entity_id = Some ''abc-123''\<rparr>
        (world idle) = (Inl (PyException ''ConnectionError'' ''connection refused'' None True), 0)
   \<and> fst (payment_refund offline_client (Some ''abc-123'') (Some [(''amount'', PyInt 5)])
            (Some ''token'') idle) =
       Inl (PyException ''VictoriabankPaymentException''
              (''HTTP error while sending POST request to endpoint ''
                 @ MIA_PAYMENTS_REFUND offline_client @ '': '' @ ''connection refused'')
              (Some (PyException ''ConnectionError'' ''connection refused'' None True)) True)"
proof -
  let ?req = "\<lparr>req_method = ''DELETE'', req_url = ''/api/v1/qr/{qrHeaderUUID}'',
                req_data = None, req_params = None, req_token = Some ''token'',
                req_entity_id = Some ''abc-123''\<rparr>"
  let ?s' = "\<lparr>world = 1::nat, sent = [?req]\<rparr>"
  let ?ex = "PyException ''ConnectionError'' ''connection refused'' None True"
  have run: "call online_client (Qr_cancel (Some ''abc-123'')) (Some ''token'') idle =
               (Inr ''DELETE /api/v1/qr/{qrHeaderUUID}'', ?s')"
    by (simp add: eval_defs)
  have log: "sent ?s' = sent idle @ [?req]"
    by (simp add: idle_def)
  have ok: "input_passes (Qr_cancel (Some ''abc-123''))"
    by (simp add: validate_id_param_def truthy_def py_len_def)
  have answer: "send_request online_client
        \<lparr>req_method = ''DELETE'', req_url = MIA_QR_ID online_client, req_data = None,
         req_params = None, req_token = Some ''token'', req_entity_id = Some ''abc-123''\<rparr>
        (world idle) = (Inr ''DELETE'', 1)"
    by (simp add: online_client_def idle_def)
  have fault: "send_request offline_client
        \<lparr>req_method = ''POST'', req_url = MIA_PAYMENTS_REFUND offline_client,
         req_data = Some [(''amount'', PyInt 5)], req_params = None,
         req_token = Some ''token'', req_entity_id = Some ''abc-123''\<rparr>
        (world idle) = (Inl ?ex, 0)"
    by (simp add: offline_client_def online_client_def idle_def)
  have nonempty: "''abc-123'' \<noteq> [] \<and> ''token'' \<noteq> []"
    by simp
  note online = dispatch_verbs
         [of online_client "Qr_cancel (Some ''abc-123'')" "Some ''token''" idle
             "Inr ''DELETE /api/v1/qr/{qrHeaderUUID}''" ?s' ?req "''token''" "''abc-123''"
             "''DELETE''" 1 ?ex None]
  note offline = dispatch_verbs
         [of offline_client "Qr_cancel (Some ''abc-123'')" "Some ''token''" idle
             "Inr ''DELETE /api/v1/qr/{qrHeaderUUID}''" ?s' ?req "''token''" "''abc-123''"
             "''DELETE''" 0 ?ex "Some [(''amount'', PyInt 5)]"]
  have verb: "req_method ?req = spec_verb (Qr_cancel (Some ''abc-123''))"
    by (rule online [THEN conjunct1, THEN mp, OF conjI [OF run log]])
  have handled:
    "fst (qr_cancel online_client (Some ''abc-123'') (Some ''token'') idle) =
       fst (handle_response online_client ''DELETE'' (MIA_QR_ID online_client) 1)"
    by (rule online [THEN conjunct2, THEN conjunct2, THEN mp, OF nonempty,
                     THEN conjunct2, THEN conjunct1, THEN mp, OF answer, THEN conjunct1])
  have "fst (payment_refund offline_client (Some ''abc-123'') (Some [(''amount'', PyInt 5)])
            (Some ''token'') idle) =
        Inl (if exc_is_Exception ?ex
             then PyException ''VictoriabankPaymentException''
                    (''HTTP error while sending POST request to endpoint ''
                       @ MIA_PAYMENTS_REFUND offline_client @ '': '' @ exc_str ?ex)
                    (Some ?ex) True
             else ?ex)"
    by (rule offline [THEN conjunct2, THEN conjunct2, THEN mp, OF nonempty,
                      THEN conjunct2, THEN conjunct2, THEN conjunct2, THEN conjunct2,
                      THEN conjunct2, THEN mp, OF fault, THEN conjunct1])
  then have wrapped:
    "fst (payment_refund offline_client (Some ''abc-123'') (Some [(''amount'', PyInt 5)])
            (Some ''token'') idle) =
       Inl (PyException ''VictoriabankPaymentException''
              (''HTTP error while sending POST request to endpoint ''
                 @ MIA_PAYMENTS_REFUND offline_client @ '': '' @ ''connection refused'')
              (Some ?ex) True)"
    by (simp only: py_exception.sel if_True)
  show ?thesis
    by (intro conjI run verb ok answer handled fault wrapped)
qed

section \<open>Empty payloads\<close>

text \<open>
  C8. For \<^verbatim>\<open>qr_create\<close> and \<^verbatim>\<open>test_pay\<close>, the two operations with required fields,
  a payload that is \<^verbatim>\<open>None\<close> or an empty mapping passes \<^verbatim>\<open>_validate_params\<close>
  without any field being looked at, and with a non-empty token the call goes on to
  \<^verbatim>\<open>_send_request\<close>, which hands the client exactly one request with that payload as
  its body.
\<close>

theorem empty_payload_skips_check:
  assumes "data = None \<or> data = Some []"
  shows "validate_params data (Some REQUIRED_QR_PARAMS) = Inr True
       \<and> validate_params data (Some REQUIRED_TEST_PAY_PARAMS) = Inr True
       \<and> (t \<noteq> [] \<longrightarrow>
            qr_create client data params (Some t) s =
              api_send_request client ''POST'' (MIA_QR client) (Some t) data params None s
          \<and> sent (snd (qr_create client data params (Some t) s)) =
              sent s @ [\<lparr>req_method = ''POST'', req_url = MIA_QR client, req_data = data,
                         req_params = params, req_token = Some t, req_entity_id = None\<rparr>]
          \<and> test_pay client data (Some t) s =
              api_send_request client ''POST'' (SANDBOX_DEMOPAY_URL client) (Some t) data None
                None s
          \<and> sent (snd (test_pay client data (Some t) s)) =
              sent s @ [\<lparr>req_method = ''POST'', req_url = SANDBOX_DEMOPAY_URL client,
                         req_data = data, req_params = None, req_token = Some t,
                         req_entity_id = None\<rparr>])"
proof -
  have skip: "validate_params data required_params = Inr True" for required_params
    by (rule validate_params_skip [OF assms])
  have "qr_create client data params (Some t) s =
          api_send_request client ''POST'' (MIA_QR client) (Some t) data params None s"
    and "test_pay client data (Some t) s =
          api_send_request client ''POST'' (SANDBOX_DEMOPAY_URL client) (Some t) data None None s"
    if "t \<noteq> []"
    using validate_access_token_ok [OF that]
    by (simp_all add: qr_create_def test_pay_def execute_operation_send [OF skip])
  then show ?thesis
    by (simp add: skip sent_api_send_request)
qed

theorem empty_payload_skips_check_witness:
  "test_pay online_client None (Some ''token'') idle =
     (Inr ''POST /api/Pay'',
      \<lparr>world = 1,
       sent = [\<lparr>req_method = ''POST'', req_url = ''/api/Pay'', req_data = None,
                req_params = None, req_token = Some ''token'', req_entity_id = None\<rparr>]\<rparr>)
   \<and> validate_params (Some []) (Some REQUIRED_QR_PARAMS) = Inr True"
  using empty_payload_skips_check [of None "''token''" online_client None idle]
        empty_payload_skips_check [of "Some []" "''token''" online_client None idle]
  by (simp add: api_send_request_def online_client_def idle_def)

section \<open>Order of the validations\<close>

text \<open>
  C9, for non-empty payloads. The payload or the identifier is validated before the
  token. With a
  token that is \<^verbatim>\<open>None\<close> or empty: \<^verbatim>\<open>qr_create\<close> and \<^verbatim>\<open>test_pay\<close>, called with
  a non-empty payload in which a required field is missing, raise the missing-field
  error; every identifier-based operation, called with an identifier that is \<^verbatim>\<open>None\<close>
  or empty, raises the identifier error.
\<close>

theorem validation_order:
  assumes "token = None \<or> token = Some []"
  shows "(d \<noteq> [] \<and> dict_get d ''header'' = PyNone \<longrightarrow>
            qr_create client (Some d) params token s =
              (Inl (VictoriabankPaymentException ''Missing required parameter: header''), s))
       \<and> (d \<noteq> [] \<and> dict_get d ''header'' \<noteq> PyNone \<and> dict_get d ''extension'' = PyNone \<longrightarrow>
            qr_create client (Some d) params token s =
              (Inl (VictoriabankPaymentException ''Missing required parameter: extension''), s))
       \<and> (d \<noteq> [] \<and> dict_get d ''qrHeaderUUID'' = PyNone \<longrightarrow>
            test_pay client (Some d) token s =
              (Inl (VictoriabankPaymentException ''Missing required parameter: qrHeaderUUID''), s))
       \<and> (entity_id = None \<or> entity_id = Some [] \<longrightarrow>
            qr_status client entity_id params token s =
              (Inl (VictoriabankPaymentException ''Missing ID.''), s)
          \<and> qr_cancel client entity_id token s =
              (Inl (VictoriabankPaymentException ''Missing ID.''), s)
          \<and> qr_create_extension client entity_id data token s =
              (Inl (VictoriabankPaymentException ''Missing ID.''), s)
          \<and> qr_cancel_extension client entity_id token s =
              (Inl (VictoriabankPaymentException ''Missing ID.''), s)
          \<and> qr_extension_status client entity_id params token s =
              (Inl (VictoriabankPaymentException ''Missing ID.''), s)
          \<and> payment_details client entity_id token s =
              (Inl (VictoriabankPaymentException ''Missing ID.''), s)
          \<and> payment_refund client entity_id data token s =
              (Inl (VictoriabankPaymentException ''Missing ID.''), s))"
  by (simp add: qr_create_missing_header qr_create_missing_extension test_pay_missing_uuid
        entity_id_operations_missing_id)

theorem validation_order_witness:
  "qr_create online_client (Some [(''extension'', PyDict [])]) None None idle =
     (Inl (VictoriabankPaymentException ''Missing required parameter: header''), idle)
   \<and> qr_create online_client (Some [(''header'', PyDict [])]) None (Some []) idle =
     (Inl (VictoriabankPaymentException ''Missing required parameter: extension''), idle)
   \<and> test_pay online_client (Some [(''amount'', PyInt 5)]) None idle =
     (Inl (VictoriabankPaymentException ''Missing required parameter: qrHeaderUUID''), idle)
   \<and> qr_cancel online_client (Some []) (Some []) idle =
     (Inl (VictoriabankPaymentException ''Missing ID.''), idle)"
  using validation_order
          [of None "[(''extension'', PyDict [])]" online_client None idle "Some []" None]
        validation_order
          [of "Some []" "[(''header'', PyDict [])]" online_client None idle "Some []" None]
        validation_order
          [of None "[(''amount'', PyInt 5)]" online_client None idle "Some []" None]
  by (simp add: dict_get_def)

text \<open>
  C9 does not extend to the empty payload: \<^verbatim>\<open>qrHeaderUUID\<close> is missing from it and
  the token is empty, yet \<^verbatim>\<open>test_pay\<close> raises the token error, the field check
  having been skipped.
\<close>

theorem empty_payload_token_error:
  "dict_get [] ''qrHeaderUUID'' = PyNone
   \<and> test_pay online_client (Some []) (Some []) idle =
       (Inl (VictoriabankPaymentException
               ''Access token is not valid. It should be a non-empty string.''), idle)
   \<and> VictoriabankPaymentException ''Access token is not valid. It should be a non-empty string.''
       \<noteq> VictoriabankPaymentException ''Missing required parameter: qrHeaderUUID''"
  by (simp add: eval_defs)

section \<open>The second test of the identifier validation\<close>

text \<open>
  C10. \<^verbatim>\<open>_validate_id_param\<close> raises \<^verbatim>\<open>Missing ID.\<close> when the identifier is
  \<^verbatim>\<open>None\<close> or the empty string and returns normally otherwise; the message of its
  second test, about 36 characters, is never produced.
\<close>

theorem id_length_message_unreachable:
  "validate_id_param entity_id =
     (if entity_id = None \<or> entity_id = Some []
      then Inl (VictoriabankPaymentException ''Missing ID.'')
      else Inr ())
   \<and> validate_id_param entity_id \<noteq>
       Inl (VictoriabankPaymentException
              ''Invalid ID parameter. Should be string of 36 characters.'')"
  by (cases entity_id)
    (simp_all add: validate_id_param_def truthy_def py_len_def VictoriabankPaymentException_def)

theorem id_length_message_unreachable_witness:
  "validate_id_param (Some []) = Inl (VictoriabankPaymentException ''Missing ID.'')
   \<and> validate_id_param (Some ''abc-123'') = Inr ()"
  using id_length_message_unreachable [of "Some []"]
        id_length_message_unreachable [of "Some ''abc-123''"]
  by simp

end
